theory Spec2Isabelle
  imports Main
begin

section \<open>Fleet logistics: entity store\<close>

text \<open>
  The entities of \<^verbatim>\<open>core/models.py\<close>.  A \<^verbatim>\<open>DecimalField\<close> with two decimal places
  is held as an integer number of hundredths (comparison and the test for zero are the
  same on both), a \<^verbatim>\<open>DateField\<close> as a day number.  A primary key or foreign key that
  is \<^verbatim>\<open>None\<close> in Python is \<open>None\<close> here; keys handed out by the database are
  positive, so Python's truth test \<^verbatim>\<open>if self.pk\<close> is the test for \<open>Some\<close>.
  Only the fields that the validation and lifecycle code reads or writes are kept.
\<close>

datatype vehicle_status = available | on_trip | in_shop | retired

datatype driver_status = off_duty | on_duty | suspended

datatype trip_status = draft | dispatched | completed | cancelled

datatype maintenance_status = pending | in_progress | maintenance_completed

record vehicle =
  v_pk :: "nat option"
  capacity_kg :: int
  odometer_km :: int
  v_status :: vehicle_status
  acquisition_cost :: int

record driver =
  d_pk :: "nat option"
  license_expiry :: int
  d_status :: driver_status

record trip =
  t_pk :: "nat option"
  vehicle_id :: "nat option"
  driver_id :: "nat option"
  cargo_weight_kg :: int
  revenue :: int
  distance_km :: int
  t_status :: trip_status
  completed_date :: "int option"

record maintenance =
  m_pk :: "nat option"
  m_vehicle_id :: "nat option"
  m_status :: maintenance_status
  m_completed_date :: "int option"
  cost :: int

text \<open>
  The database: one list of rows per table, and the next key of the two tables whose
  rows the modelled operations insert.
\<close>

record db =
  vehicles :: "vehicle list"
  drivers :: "driver list"
  trips :: "trip list"
  maintenance_records :: "maintenance list"
  next_trip_pk :: nat
  next_maintenance_pk :: nat

text \<open>
  The failures of the operations.  The validation errors of \<^verbatim>\<open>Trip.clean\<close> and the
  HTTP 400 answers of the views carry messages only; they are named after the error
  taxonomy of the specification.  \<open>NotFound\<close> is Django's \<^verbatim>\<open>DoesNotExist\<close> / 404,
  \<open>FieldRequired\<close> the serializer's answer to a missing required field.
\<close>

datatype error =
    CapacityExceeded
  | LicenseExpired
  | DriverSuspended
  | VehicleBusy
  | VehicleUnavailable
  | InvalidTransition
  | DriverBusy
  | OutOfRange
  | NotFound
  | FieldRequired

subsection \<open>Queries and bulk updates\<close>

definition get_vehicle :: "db \<Rightarrow> nat \<Rightarrow> vehicle option" where
  "get_vehicle s k = find (\<lambda>v. v_pk v = Some k) (vehicles s)"

definition get_driver :: "db \<Rightarrow> nat \<Rightarrow> driver option" where
  "get_driver s k = find (\<lambda>d. d_pk d = Some k) (drivers s)"

definition get_trip :: "db \<Rightarrow> nat \<Rightarrow> trip option" where
  "get_trip s k = find (\<lambda>t. t_pk t = Some k) (trips s)"

definition get_maintenance :: "db \<Rightarrow> nat \<Rightarrow> maintenance option" where
  "get_maintenance s k = find (\<lambda>m. m_pk m = Some k) (maintenance_records s)"

text \<open>\<^verbatim>\<open>Vehicle.objects.filter(pk=k).update(status=st)\<close>; no row is touched when \<open>k\<close> is \<open>None\<close>.\<close>

definition update_vehicle_status :: "nat option \<Rightarrow> vehicle_status \<Rightarrow> db \<Rightarrow> db" where
  "update_vehicle_status k st s =
     s\<lparr>vehicles := map (\<lambda>v. if v_pk v = k \<and> k \<noteq> None then v\<lparr>v_status := st\<rparr> else v) (vehicles s)\<rparr>"

text \<open>\<^verbatim>\<open>Driver.objects.filter(pk=k).update(status=st)\<close>.\<close>

definition update_driver_status :: "nat option \<Rightarrow> driver_status \<Rightarrow> db \<Rightarrow> db" where
  "update_driver_status k st s =
     s\<lparr>drivers := map (\<lambda>d. if d_pk d = k \<and> k \<noteq> None then d\<lparr>d_status := st\<rparr> else d) (drivers s)\<rparr>"

text \<open>\<^verbatim>\<open>Trip.objects.filter(pk=k).update(completed_date=day)\<close>.\<close>

definition update_trip_completed_date :: "nat option \<Rightarrow> int \<Rightarrow> db \<Rightarrow> db" where
  "update_trip_completed_date k day s =
     s\<lparr>trips := map (\<lambda>t. if t_pk t = k \<and> k \<noteq> None then t\<lparr>completed_date := Some day\<rparr> else t) (trips s)\<rparr>"

text \<open>\<^verbatim>\<open>Maintenance.objects.filter(pk=k).update(completed_date=day)\<close>.\<close>

definition update_maintenance_completed_date :: "nat option \<Rightarrow> int \<Rightarrow> db \<Rightarrow> db" where
  "update_maintenance_completed_date k day s =
     s\<lparr>maintenance_records :=
         map (\<lambda>m. if m_pk m = k \<and> k \<noteq> None then m\<lparr>m_completed_date := Some day\<rparr> else m)
           (maintenance_records s)\<rparr>"

text \<open>
  \<^verbatim>\<open>Trip.objects.filter(vehicle=vehicle, status='dispatched').exclude(pk=self.pk).exists()\<close>
\<close>

definition other_dispatched_exists :: "db \<Rightarrow> nat option \<Rightarrow> nat option \<Rightarrow> bool" where
  "other_dispatched_exists s vid self_pk =
     (filter (\<lambda>t. vehicle_id t = vid \<and> t_status t = dispatched \<and> t_pk t \<noteq> self_pk) (trips s) \<noteq> [])"

subsection \<open>Driver properties\<close>

text \<open>\<^verbatim>\<open>Driver.is_license_expired\<close>: \<^verbatim>\<open>license_expiry < timezone.now().date()\<close>.\<close>

definition is_license_expired :: "int \<Rightarrow> driver \<Rightarrow> bool" where
  "is_license_expired today d = (license_expiry d < today)"

section \<open>Validation: \<^verbatim>\<open>Trip.clean\<close>\<close>

text \<open>
  The three blocks of \<^verbatim>\<open>Trip.clean\<close>, in the order of the source.  A foreign key is
  followed (\<^verbatim>\<open>self.vehicle\<close>, \<^verbatim>\<open>self.driver\<close>) only inside the block that reads it;
  a key without a row raises \<^verbatim>\<open>DoesNotExist\<close>.  \<^verbatim>\<open>Trip.save\<close> calls \<^verbatim>\<open>full_clean\<close>;
  of it, \<^verbatim>\<open>Trip.clean\<close> is the repository's code.  Django's own per-field checks
  (number formats, choices) accept every value of the types used here.
\<close>

definition clean_cargo :: "db \<Rightarrow> trip \<Rightarrow> error + unit" where
  "clean_cargo s self =
     (case vehicle_id self of
        None \<Rightarrow> Inr ()
      | Some vid \<Rightarrow>
          if cargo_weight_kg self \<noteq> 0 then
            (case get_vehicle s vid of
               None \<Rightarrow> Inl NotFound
             | Some v \<Rightarrow>
                 if cargo_weight_kg self > capacity_kg v then Inl CapacityExceeded else Inr ())
          else Inr ())"

definition clean_driver :: "int \<Rightarrow> db \<Rightarrow> trip \<Rightarrow> error + unit" where
  "clean_driver today s self =
     (case driver_id self of
        None \<Rightarrow> Inr ()
      | Some did \<Rightarrow>
          if t_status self = draft \<or> t_status self = dispatched then
            (case get_driver s did of
               None \<Rightarrow> Inl NotFound
             | Some d \<Rightarrow>
                 if is_license_expired today d then Inl LicenseExpired
                 else if d_status d = suspended then Inl DriverSuspended
                 else Inr ())
          else Inr ())"

definition clean_vehicle_availability :: "db \<Rightarrow> trip \<Rightarrow> error + unit" where
  "clean_vehicle_availability s self =
     (case vehicle_id self of
        None \<Rightarrow> Inr ()
      | Some vid \<Rightarrow>
          if t_status self = dispatched then
            (case get_vehicle s vid of
               None \<Rightarrow> Inl NotFound
             | Some v \<Rightarrow>
                 if v_status v = on_trip \<and> t_pk self \<noteq> None then
                   (if other_dispatched_exists s (v_pk v) (t_pk self) then Inl VehicleBusy
                    else Inr ())
                 else if v_status v = in_shop \<or> v_status v = retired then Inl VehicleUnavailable
                 else Inr ())
          else Inr ())"

definition Trip_clean :: "int \<Rightarrow> db \<Rightarrow> trip \<Rightarrow> error + unit" where
  "Trip_clean today s self =
     (case clean_cargo s self of
        Inl e \<Rightarrow> Inl e
      | Inr _ \<Rightarrow>
          (case clean_driver today s self of
             Inl e \<Rightarrow> Inl e
           | Inr _ \<Rightarrow> clean_vehicle_availability s self))"

section \<open>Lifecycle: \<^verbatim>\<open>Trip.save\<close>\<close>

text \<open>
  \<^verbatim>\<open>old = Trip.objects.get(pk=self.pk)\<close> when the instance has a key; a new instance has
  \<^verbatim>\<open>old_status = None\<close>.
\<close>

definition old_trip_status :: "db \<Rightarrow> trip \<Rightarrow> error + trip_status option" where
  "old_trip_status s self =
     (case t_pk self of
        None \<Rightarrow> Inr None
      | Some k \<Rightarrow>
          (case get_trip s k of
             None \<Rightarrow> Inl NotFound
           | Some old \<Rightarrow> Inr (Some (t_status old))))"

text \<open>
  \<^verbatim>\<open>super().save()\<close>: the row with the instance's key is overwritten with all fields of
  the instance; an instance without a key is inserted under the next key.
\<close>

definition write_trip :: "db \<Rightarrow> trip \<Rightarrow> db" where
  "write_trip s self =
     (case t_pk self of
        Some k \<Rightarrow> s\<lparr>trips := map (\<lambda>t. if t_pk t = Some k then self else t) (trips s)\<rparr>
      | None \<Rightarrow>
          s\<lparr>trips := trips s @ [self\<lparr>t_pk := Some (next_trip_pk s)\<rparr>],
            next_trip_pk := Suc (next_trip_pk s)\<rparr>)"

definition saved_trip_pk :: "db \<Rightarrow> trip \<Rightarrow> nat option" where
  "saved_trip_pk s self = (case t_pk self of Some k \<Rightarrow> Some k | None \<Rightarrow> Some (next_trip_pk s))"

definition Trip_save :: "int \<Rightarrow> db \<Rightarrow> trip \<Rightarrow> error + db" where
  "Trip_save today s self =
     (case Trip_clean today s self of
        Inl e \<Rightarrow> Inl e
      | Inr _ \<Rightarrow>
          (case old_trip_status s self of
             Inl e \<Rightarrow> Inl e
           | Inr old_status \<Rightarrow>
               let s1 = write_trip s self;
                   s2 = (if t_status self = dispatched \<and> old_status \<noteq> Some dispatched
                         then update_driver_status (driver_id self) on_duty
                                (update_vehicle_status (vehicle_id self) on_trip s1)
                         else s1);
                   s3 = (if (t_status self = completed \<or> t_status self = cancelled)
                            \<and> old_status = Some dispatched
                         then
                           let s4 = update_driver_status (driver_id self) off_duty
                                      (update_vehicle_status (vehicle_id self) available s2)
                           in if t_status self = completed
                              then update_trip_completed_date (saved_trip_pk s self) today s4
                              else s4
                         else s2)
               in Inr s3))"

section \<open>Trip actions of \<^verbatim>\<open>TripViewSet\<close>\<close>

text \<open>The body of a \<^verbatim>\<open>complete\<close> request; only two of its fields are read.\<close>

record complete_request =
  rq_distance_km :: "int option"
  rq_revenue :: "int option"
  rq_completed_date :: "int option"

definition dispatch_trip :: "int \<Rightarrow> db \<Rightarrow> nat \<Rightarrow> error + db" where
  "dispatch_trip today s pk =
     (case get_trip s pk of
        None \<Rightarrow> Inl NotFound
      | Some trip \<Rightarrow>
          if t_status trip \<noteq> draft then Inl InvalidTransition
          else Trip_save today s (trip\<lparr>t_status := dispatched\<rparr>))"

definition complete_trip :: "int \<Rightarrow> db \<Rightarrow> nat \<Rightarrow> complete_request \<Rightarrow> error + db" where
  "complete_trip today s pk rq =
     (case get_trip s pk of
        None \<Rightarrow> Inl NotFound
      | Some trip \<Rightarrow>
          if t_status trip \<noteq> dispatched then Inl InvalidTransition
          else
            let trip1 = (case rq_distance_km rq of None \<Rightarrow> trip | Some x \<Rightarrow> trip\<lparr>distance_km := x\<rparr>);
                trip2 = (case rq_revenue rq of None \<Rightarrow> trip1 | Some x \<Rightarrow> trip1\<lparr>revenue := x\<rparr>)
            in Trip_save today s (trip2\<lparr>t_status := completed\<rparr>))"

definition cancel_trip :: "int \<Rightarrow> db \<Rightarrow> nat \<Rightarrow> error + db" where
  "cancel_trip today s pk =
     (case get_trip s pk of
        None \<Rightarrow> Inl NotFound
      | Some trip \<Rightarrow>
          if t_status trip = completed then Inl InvalidTransition
          else Trip_save today s (trip\<lparr>t_status := cancelled\<rparr>))"

section \<open>Trip serializers\<close>

text \<open>
  The validated body of a create or update request for a trip: a field that the request
  leaves out is \<open>None\<close>.  The serializers expose every model field, \<^verbatim>\<open>status\<close> included.
\<close>

record trip_data =
  td_vehicle :: "nat option"
  td_driver :: "nat option"
  td_cargo_weight_kg :: "int option"
  td_revenue :: "int option"
  td_distance_km :: "int option"
  td_status :: "trip_status option"
  td_completed_date :: "int option"

text \<open>
  \<^verbatim>\<open>data.get('vehicle') or (self.instance.vehicle if self.instance else None)\<close>: a key in
  the request is resolved to its row by the related field, which rejects an unknown key.
\<close>

definition data_vehicle :: "db \<Rightarrow> trip option \<Rightarrow> trip_data \<Rightarrow> error + vehicle option" where
  "data_vehicle s instance data =
     (case td_vehicle data of
        Some k \<Rightarrow> (case get_vehicle s k of None \<Rightarrow> Inl NotFound | Some v \<Rightarrow> Inr (Some v))
      | None \<Rightarrow>
          (case instance of
             None \<Rightarrow> Inr None
           | Some i \<Rightarrow>
               (case vehicle_id i of
                  None \<Rightarrow> Inr None
                | Some k \<Rightarrow>
                    (case get_vehicle s k of None \<Rightarrow> Inl NotFound | Some v \<Rightarrow> Inr (Some v)))))"

definition data_driver :: "db \<Rightarrow> trip option \<Rightarrow> trip_data \<Rightarrow> error + driver option" where
  "data_driver s instance data =
     (case td_driver data of
        Some k \<Rightarrow> (case get_driver s k of None \<Rightarrow> Inl NotFound | Some d \<Rightarrow> Inr (Some d))
      | None \<Rightarrow>
          (case instance of
             None \<Rightarrow> Inr None
           | Some i \<Rightarrow>
               (case driver_id i of
                  None \<Rightarrow> Inr None
                | Some k \<Rightarrow>
                    (case get_driver s k of None \<Rightarrow> Inl NotFound | Some d \<Rightarrow> Inr (Some d)))))"

text \<open>\<^verbatim>\<open>TripDetailSerializer.validate\<close>.\<close>

definition TripDetailSerializer_validate ::
    "int \<Rightarrow> db \<Rightarrow> trip option \<Rightarrow> trip_data \<Rightarrow> error + unit" where
  "TripDetailSerializer_validate today s instance data =
     (case data_vehicle s instance data of
        Inl e \<Rightarrow> Inl e
      | Inr vehicle \<Rightarrow>
          (case data_driver s instance data of
             Inl e \<Rightarrow> Inl e
           | Inr driver \<Rightarrow>
               let cargo = (case td_cargo_weight_kg data of None \<Rightarrow> 0 | Some c \<Rightarrow> c);
                   status = (case td_status data of None \<Rightarrow> draft | Some st \<Rightarrow> st)
               in
                 if (case vehicle of None \<Rightarrow> False
                     | Some v \<Rightarrow> cargo \<noteq> 0 \<and> cargo > capacity_kg v)
                 then Inl CapacityExceeded
                 else
                   (case driver of
                      None \<Rightarrow> Inr ()
                    | Some d \<Rightarrow>
                        if status = draft \<or> status = dispatched then
                          (if is_license_expired today d then Inl LicenseExpired
                           else if d_status d = suspended then Inl DriverSuspended
                           else Inr ())
                        else Inr ())))"

text \<open>The serializer's \<^verbatim>\<open>update\<close>: each field of the request is assigned to the instance.\<close>

definition assign_trip_data :: "trip \<Rightarrow> trip_data \<Rightarrow> trip" where
  "assign_trip_data i data =
     i\<lparr>vehicle_id := (case td_vehicle data of None \<Rightarrow> vehicle_id i | Some k \<Rightarrow> Some k),
       driver_id := (case td_driver data of None \<Rightarrow> driver_id i | Some k \<Rightarrow> Some k),
       cargo_weight_kg := (case td_cargo_weight_kg data of None \<Rightarrow> cargo_weight_kg i | Some x \<Rightarrow> x),
       revenue := (case td_revenue data of None \<Rightarrow> revenue i | Some x \<Rightarrow> x),
       distance_km := (case td_distance_km data of None \<Rightarrow> distance_km i | Some x \<Rightarrow> x),
       t_status := (case td_status data of None \<Rightarrow> t_status i | Some x \<Rightarrow> x),
       completed_date := (case td_completed_date data of None \<Rightarrow> completed_date i | Some x \<Rightarrow> Some x)\<rparr>"

text \<open>A new \<^verbatim>\<open>Trip\<close> with the defaults of the model's fields.\<close>

definition new_trip :: trip where
  "new_trip =
     \<lparr>t_pk = None, vehicle_id = None, driver_id = None, cargo_weight_kg = 0, revenue = 0,
      distance_km = 0, t_status = draft, completed_date = None\<rparr>"

text \<open>
  \<^verbatim>\<open>POST /api/trips/\<close> with \<^verbatim>\<open>TripCreateSerializer\<close>: the two foreign keys are required
  fields; then \<^verbatim>\<open>validate\<close>, then \<^verbatim>\<open>Trip.objects.create\<close>, which saves a new instance.
\<close>

definition create_trip :: "int \<Rightarrow> db \<Rightarrow> trip_data \<Rightarrow> error + db" where
  "create_trip today s data =
     (if td_vehicle data = None \<or> td_driver data = None then Inl FieldRequired
      else
        (case TripDetailSerializer_validate today s None data of
           Inl e \<Rightarrow> Inl e
         | Inr _ \<Rightarrow> Trip_save today s (assign_trip_data new_trip data)))"

text \<open>
  \<^verbatim>\<open>PATCH /api/trips/{id}/\<close> with \<^verbatim>\<open>TripDetailSerializer\<close>: \<^verbatim>\<open>validate\<close>, assignment
  of the fields, \<^verbatim>\<open>instance.save()\<close>.
\<close>

definition update_trip :: "int \<Rightarrow> db \<Rightarrow> nat \<Rightarrow> trip_data \<Rightarrow> error + db" where
  "update_trip today s pk data =
     (case get_trip s pk of
        None \<Rightarrow> Inl NotFound
      | Some trip \<Rightarrow>
          (case TripDetailSerializer_validate today s (Some trip) data of
             Inl e \<Rightarrow> Inl e
           | Inr _ \<Rightarrow> Trip_save today s (assign_trip_data trip data)))"

section \<open>Vehicles\<close>

text \<open>\<^verbatim>\<open>vehicle.save()\<close> of a stored vehicle: its row is overwritten.\<close>

definition write_vehicle :: "db \<Rightarrow> vehicle \<Rightarrow> db" where
  "write_vehicle s self =
     s\<lparr>vehicles := map (\<lambda>v. if v_pk v = v_pk self \<and> v_pk self \<noteq> None then self else v) (vehicles s)\<rparr>"

text \<open>\<^verbatim>\<open>VehicleViewSet.retire\<close>.\<close>

definition retire :: "db \<Rightarrow> nat \<Rightarrow> error + db" where
  "retire s pk =
     (case get_vehicle s pk of
        None \<Rightarrow> Inl NotFound
      | Some vehicle \<Rightarrow>
          if v_status vehicle = on_trip then Inl VehicleBusy
          else Inr (write_vehicle s (vehicle\<lparr>v_status := retired\<rparr>)))"

text \<open>The validated body of an update request for a vehicle.\<close>

record vehicle_data =
  vd_capacity_kg :: "int option"
  vd_odometer_km :: "int option"
  vd_status :: "vehicle_status option"
  vd_acquisition_cost :: "int option"

text \<open>\<^verbatim>\<open>VehicleDetailSerializer.validate_odometer_km\<close>.\<close>

definition validate_odometer_km :: "vehicle option \<Rightarrow> int \<Rightarrow> error + int" where
  "validate_odometer_km instance v =
     (case instance of
        None \<Rightarrow> Inr v
      | Some i \<Rightarrow> if v < odometer_km i then Inl OutOfRange else Inr v)"

definition assign_vehicle_data :: "vehicle \<Rightarrow> vehicle_data \<Rightarrow> vehicle" where
  "assign_vehicle_data i data =
     i\<lparr>capacity_kg := (case vd_capacity_kg data of None \<Rightarrow> capacity_kg i | Some x \<Rightarrow> x),
       odometer_km := (case vd_odometer_km data of None \<Rightarrow> odometer_km i | Some x \<Rightarrow> x),
       v_status := (case vd_status data of None \<Rightarrow> v_status i | Some x \<Rightarrow> x),
       acquisition_cost := (case vd_acquisition_cost data of None \<Rightarrow> acquisition_cost i | Some x \<Rightarrow> x)\<rparr>"

text \<open>
  \<^verbatim>\<open>PATCH /api/vehicles/{id}/\<close> with \<^verbatim>\<open>VehicleDetailSerializer\<close>: the field validator
  runs on an odometer reading that the request carries; then the fields are assigned
  and the instance is saved.
\<close>

definition update_vehicle :: "db \<Rightarrow> nat \<Rightarrow> vehicle_data \<Rightarrow> error + db" where
  "update_vehicle s pk data =
     (case get_vehicle s pk of
        None \<Rightarrow> Inl NotFound
      | Some instance \<Rightarrow>
          (case (case vd_odometer_km data of
                   None \<Rightarrow> Inr 0
                 | Some v \<Rightarrow> validate_odometer_km (Some instance) v) of
             Inl e \<Rightarrow> Inl e
           | Inr _ \<Rightarrow> Inr (write_vehicle s (assign_vehicle_data instance data))))"

text \<open>\<^verbatim>\<open>Vehicle.clean\<close>.\<close>

definition Vehicle_clean :: "db \<Rightarrow> vehicle \<Rightarrow> error + unit" where
  "Vehicle_clean s self =
     (case v_pk self of
        None \<Rightarrow> Inr ()
      | Some k \<Rightarrow>
          (case get_vehicle s k of
             None \<Rightarrow> Inl NotFound
           | Some old \<Rightarrow> if odometer_km self < odometer_km old then Inl OutOfRange else Inr ()))"

text \<open>
  The change form of the registered \<^verbatim>\<open>VehicleAdmin\<close>: the form's fields are assigned,
  the model is validated with \<^verbatim>\<open>full_clean\<close> (which calls \<^verbatim>\<open>Vehicle.clean\<close>) and saved.
\<close>

definition admin_change_vehicle :: "db \<Rightarrow> nat \<Rightarrow> vehicle_data \<Rightarrow> error + db" where
  "admin_change_vehicle s pk data =
     (case get_vehicle s pk of
        None \<Rightarrow> Inl NotFound
      | Some instance \<Rightarrow>
          (case Vehicle_clean s (assign_vehicle_data instance data) of
             Inl e \<Rightarrow> Inl e
           | Inr _ \<Rightarrow> Inr (write_vehicle s (assign_vehicle_data instance data))))"

section \<open>Drivers\<close>

definition write_driver :: "db \<Rightarrow> driver \<Rightarrow> db" where
  "write_driver s self =
     s\<lparr>drivers := map (\<lambda>d. if d_pk d = d_pk self \<and> d_pk self \<noteq> None then self else d) (drivers s)\<rparr>"

text \<open>\<^verbatim>\<open>DriverViewSet.suspend\<close>.\<close>

definition suspend :: "db \<Rightarrow> nat \<Rightarrow> error + db" where
  "suspend s pk =
     (case get_driver s pk of
        None \<Rightarrow> Inl NotFound
      | Some driver \<Rightarrow>
          if d_status driver = on_duty then Inl DriverBusy
          else Inr (write_driver s (driver\<lparr>d_status := suspended\<rparr>)))"

text \<open>\<^verbatim>\<open>DriverViewSet.reinstate\<close>.\<close>

definition reinstate :: "db \<Rightarrow> nat \<Rightarrow> error + db" where
  "reinstate s pk =
     (case get_driver s pk of
        None \<Rightarrow> Inl NotFound
      | Some driver \<Rightarrow> Inr (write_driver s (driver\<lparr>d_status := off_duty\<rparr>)))"

section \<open>Maintenance\<close>

definition old_maintenance_status :: "db \<Rightarrow> maintenance \<Rightarrow> error + maintenance_status option" where
  "old_maintenance_status s self =
     (case m_pk self of
        None \<Rightarrow> Inr None
      | Some k \<Rightarrow>
          (case get_maintenance s k of
             None \<Rightarrow> Inl NotFound
           | Some old \<Rightarrow> Inr (Some (m_status old))))"

definition write_maintenance :: "db \<Rightarrow> maintenance \<Rightarrow> db" where
  "write_maintenance s self =
     (case m_pk self of
        Some k \<Rightarrow>
          s\<lparr>maintenance_records :=
              map (\<lambda>m. if m_pk m = Some k then self else m) (maintenance_records s)\<rparr>
      | None \<Rightarrow>
          s\<lparr>maintenance_records :=
              maintenance_records s @ [self\<lparr>m_pk := Some (next_maintenance_pk s)\<rparr>],
            next_maintenance_pk := Suc (next_maintenance_pk s)\<rparr>)"

definition saved_maintenance_pk :: "db \<Rightarrow> maintenance \<Rightarrow> nat option" where
  "saved_maintenance_pk s self =
     (case m_pk self of Some k \<Rightarrow> Some k | None \<Rightarrow> Some (next_maintenance_pk s))"

text \<open>\<^verbatim>\<open>Maintenance.save\<close>.\<close>

definition Maintenance_save :: "int \<Rightarrow> db \<Rightarrow> maintenance \<Rightarrow> error + db" where
  "Maintenance_save today s self =
     (case old_maintenance_status s self of
        Inl e \<Rightarrow> Inl e
      | Inr old_status \<Rightarrow>
          let s1 = write_maintenance s self;
              s2 = (if old_status = None \<and> (m_status self = pending \<or> m_status self = in_progress)
                    then update_vehicle_status (m_vehicle_id self) in_shop s1
                    else s1);
              s3 = (if m_status self = maintenance_completed
                       \<and> old_status \<noteq> Some maintenance_completed
                    then
                      let s4 = update_vehicle_status (m_vehicle_id self) available s2
                      in if m_completed_date self = None
                         then update_maintenance_completed_date (saved_maintenance_pk s self) today s4
                         else s4
                    else s2)
          in Inr s3)"

text \<open>The validated body of a create request for a maintenance record.\<close>

record maintenance_data =
  md_vehicle :: "nat option"
  md_status :: "maintenance_status option"
  md_completed_date :: "int option"
  md_cost :: "int option"

text \<open>
  \<^verbatim>\<open>POST /api/maintenance/\<close> with \<^verbatim>\<open>MaintenanceSerializer\<close>: the vehicle is a required
  key of an existing row; the other fields take the model's defaults when left out.
\<close>

definition create_maintenance :: "int \<Rightarrow> db \<Rightarrow> maintenance_data \<Rightarrow> error + db" where
  "create_maintenance today s data =
     (case md_vehicle data of
        None \<Rightarrow> Inl FieldRequired
      | Some k \<Rightarrow>
          (case get_vehicle s k of
             None \<Rightarrow> Inl NotFound
           | Some _ \<Rightarrow>
               Maintenance_save today s
                 \<lparr>m_pk = None, m_vehicle_id = Some k,
                  m_status = (case md_status data of None \<Rightarrow> pending | Some st \<Rightarrow> st),
                  m_completed_date = md_completed_date data,
                  cost = (case md_cost data of None \<Rightarrow> 0 | Some c \<Rightarrow> c)\<rparr>))"

text \<open>\<^verbatim>\<open>MaintenanceViewSet.complete\<close>.\<close>

definition complete_maintenance :: "int \<Rightarrow> db \<Rightarrow> nat \<Rightarrow> error + db" where
  "complete_maintenance today s pk =
     (case get_maintenance s pk of
        None \<Rightarrow> Inl NotFound
      | Some record \<Rightarrow> Maintenance_save today s (record\<lparr>m_status := maintenance_completed\<rparr>))"

section \<open>Sequences of requests\<close>

datatype operation =
    CreateTrip trip_data
  | UpdateTrip nat trip_data
  | DispatchTrip nat
  | CompleteTrip nat complete_request
  | CancelTrip nat
  | UpdateVehicle nat vehicle_data
  | AdminChangeVehicle nat vehicle_data
  | RetireVehicle nat
  | SuspendDriver nat
  | ReinstateDriver nat
  | CreateMaintenance maintenance_data
  | CompleteMaintenance nat

fun perform :: "int \<Rightarrow> db \<Rightarrow> operation \<Rightarrow> error + db" where
  "perform today s (CreateTrip data) = create_trip today s data"
| "perform today s (UpdateTrip pk data) = update_trip today s pk data"
| "perform today s (DispatchTrip pk) = dispatch_trip today s pk"
| "perform today s (CompleteTrip pk rq) = complete_trip today s pk rq"
| "perform today s (CancelTrip pk) = cancel_trip today s pk"
| "perform today s (UpdateVehicle pk data) = update_vehicle s pk data"
| "perform today s (AdminChangeVehicle pk data) = admin_change_vehicle s pk data"
| "perform today s (RetireVehicle pk) = retire s pk"
| "perform today s (SuspendDriver pk) = suspend s pk"
| "perform today s (ReinstateDriver pk) = reinstate s pk"
| "perform today s (CreateMaintenance data) = create_maintenance today s data"
| "perform today s (CompleteMaintenance pk) = complete_maintenance today s pk"

text \<open>The database after a request: a request that fails has written nothing.\<close>

definition outcome :: "db \<Rightarrow> error + db \<Rightarrow> db" where
  "outcome s r = (case r of Inl _ \<Rightarrow> s | Inr s' \<Rightarrow> s')"

text \<open>A sequence of requests, each with the date on which it is served.\<close>

fun run :: "db \<Rightarrow> (int \<times> operation) list \<Rightarrow> db" where
  "run s [] = s"
| "run s ((today, x) # rest) = run (outcome s (perform today s x)) rest"

section \<open>A small fleet\<close>

text \<open>
  The scenario of the specification: one vehicle (capacity 1000 kg, odometer 5000 km,
  acquisition cost 10000) and one off-duty driver whose licence is valid until day 400.
  The other states are reached from it by requests.
\<close>

definition depot :: db where
  "depot =
     \<lparr>vehicles = [\<lparr>v_pk = Some 1, capacity_kg = 100000, odometer_km = 500000,
                   v_status = available, acquisition_cost = 1000000\<rparr>],
      drivers = [\<lparr>d_pk = Some 1, license_expiry = 400, d_status = off_duty\<rparr>],
      trips = [], maintenance_records = [], next_trip_pk = 1, next_maintenance_pk = 1\<rparr>"

definition half_load :: trip_data where
  "half_load =
     \<lparr>td_vehicle = Some 1, td_driver = Some 1, td_cargo_weight_kg = Some 50000,
      td_revenue = None, td_distance_km = None, td_status = None, td_completed_date = None\<rparr>"



definition dispatched_load :: trip_data where
  "dispatched_load = half_load\<lparr>td_status := Some dispatched\<rparr>"

definition status_only :: "trip_status \<Rightarrow> trip_data" where
  "status_only st =
     \<lparr>td_vehicle = None, td_driver = None, td_cargo_weight_kg = None, td_revenue = None,
      td_distance_km = None, td_status = Some st, td_completed_date = None\<rparr>"

definition no_fields :: complete_request where
  "no_fields = \<lparr>rq_distance_km = None, rq_revenue = None, rq_completed_date = None\<rparr>"




definition odometer_reading :: "int \<Rightarrow> vehicle_data" where
  "odometer_reading x =
     \<lparr>vd_capacity_kg = None, vd_odometer_km = Some x, vd_status = None,
      vd_acquisition_cost = None\<rparr>"

definition pending_service :: maintenance_data where
  "pending_service =
     \<lparr>md_vehicle = Some 1, md_status = None, md_completed_date = None, md_cost = None\<rparr>"

definition finished_service :: maintenance_data where
  "finished_service =
     \<lparr>md_vehicle = Some 1, md_status = Some maintenance_completed, md_completed_date = None,
      md_cost = Some 2500\<rparr>"

definition one_draft :: db where
  "one_draft = run depot [(100, CreateTrip half_load)]"





definition one_dispatched :: db where
  "one_dispatched = run depot [(100, CreateTrip half_load), (100, DispatchTrip 1)]"

definition two_dispatched :: db where
  "two_dispatched =
     run depot [(100, CreateTrip half_load), (100, DispatchTrip 1),
                (100, CreateTrip dispatched_load)]"


definition one_completed :: db where
  "one_completed =
     run depot [(100, CreateTrip half_load), (100, DispatchTrip 1),
                (101, CompleteTrip 1 no_fields)]"

definition reopened :: db where
  "reopened =
     run depot [(100, CreateTrip half_load), (100, DispatchTrip 1),
                (101, CompleteTrip 1 no_fields), (102, UpdateTrip 1 (status_only draft))]"

definition completed_directly :: db where
  "completed_directly =
     run depot [(100, CreateTrip half_load), (100, UpdateTrip 1 (status_only completed))]"


definition retired_depot :: db where
  "retired_depot = run depot [(100, RetireVehicle 1)]"

definition back_in_shop :: db where
  "back_in_shop = run depot [(100, RetireVehicle 1), (101, CreateMaintenance pending_service)]"

lemmas model_defs =
  get_vehicle_def get_driver_def get_trip_def get_maintenance_def
  update_vehicle_status_def update_driver_status_def update_trip_completed_date_def
  update_maintenance_completed_date_def other_dispatched_exists_def is_license_expired_def
  clean_cargo_def clean_driver_def clean_vehicle_availability_def Trip_clean_def
  old_trip_status_def write_trip_def saved_trip_pk_def Trip_save_def
  dispatch_trip_def complete_trip_def cancel_trip_def
  data_vehicle_def data_driver_def TripDetailSerializer_validate_def assign_trip_data_def
  new_trip_def create_trip_def update_trip_def write_vehicle_def retire_def
  validate_odometer_km_def assign_vehicle_data_def update_vehicle_def Vehicle_clean_def
  admin_change_vehicle_def write_driver_def suspend_def reinstate_def
  old_maintenance_status_def write_maintenance_def saved_maintenance_pk_def Maintenance_save_def
  create_maintenance_def complete_maintenance_def outcome_def

section \<open>Lemmas about the store\<close>

lemma find_map_key:
  "(\<And>x. P (h x) = P x) \<Longrightarrow> find P (map h xs) = map_option h (find P xs)"
  by (induction xs) auto

lemma find_snoc:
  "find P (xs @ [y]) = (case find P xs of Some x \<Rightarrow> Some x | None \<Rightarrow> if P y then Some y else None)"
  by (induction xs) auto

lemma find_SomeD: "find P xs = Some x \<Longrightarrow> P x \<and> x \<in> set xs"
  by (induction xs) (auto split: if_splits)

lemma get_driver_pk: "get_driver s k = Some d \<Longrightarrow> d_pk d = Some k"
  by (auto simp: get_driver_def dest: find_SomeD)

lemma get_vehicle_pk: "get_vehicle s k = Some v \<Longrightarrow> v_pk v = Some k"
  by (auto simp: get_vehicle_def dest: find_SomeD)



lemma get_driver_write_driver:
  "d_pk self = Some j \<Longrightarrow>
   get_driver (write_driver s self) k =
     map_option (\<lambda>d. if d_pk d = Some j then self else d) (get_driver s k)"
  unfolding get_driver_def write_driver_def
  by (simp add: find_map_key)

lemma get_vehicle_update_vehicle_status_any:
  "get_vehicle (update_vehicle_status k st s) j =
     map_option (\<lambda>v. if v_pk v = k \<and> k \<noteq> None then v\<lparr>v_status := st\<rparr> else v) (get_vehicle s j)"
  unfolding get_vehicle_def update_vehicle_status_def
  by (simp add: find_map_key)





lemma get_vehicle_write_vehicle:
  "get_vehicle (write_vehicle s self) k =
     map_option (\<lambda>v. if v_pk v = v_pk self \<and> v_pk self \<noteq> None then self else v) (get_vehicle s k)"
  unfolding get_vehicle_def write_vehicle_def
  by (simp add: find_map_key)

lemma frame_update_vehicle_status [simp]:
  "drivers (update_vehicle_status k st s) = drivers s"
  "trips (update_vehicle_status k st s) = trips s"
  "maintenance_records (update_vehicle_status k st s) = maintenance_records s"
  by (simp_all add: update_vehicle_status_def)

lemma frame_update_driver_status [simp]:
  "vehicles (update_driver_status k st s) = vehicles s"
  "trips (update_driver_status k st s) = trips s"
  "maintenance_records (update_driver_status k st s) = maintenance_records s"
  by (simp_all add: update_driver_status_def)

lemma frame_write_trip [simp]:
  "vehicles (write_trip s x) = vehicles s"
  "drivers (write_trip s x) = drivers s"
  "maintenance_records (write_trip s x) = maintenance_records s"
  by (simp_all add: write_trip_def split: option.splits)

lemma frame_update_trip_completed_date [simp]:
  "vehicles (update_trip_completed_date k day s) = vehicles s"
  "drivers (update_trip_completed_date k day s) = drivers s"
  "maintenance_records (update_trip_completed_date k day s) = maintenance_records s"
  by (simp_all add: update_trip_completed_date_def)

lemma get_vehicle_frame [simp]:
  "get_vehicle (update_driver_status k st s) j = get_vehicle s j"
  "get_vehicle (write_trip s x) j = get_vehicle s j"
  "get_vehicle (update_trip_completed_date k day s) j = get_vehicle s j"
  by (simp_all add: get_vehicle_def)

lemma get_driver_frame [simp]:
  "get_driver (update_vehicle_status kv sv s) j = get_driver s j"
  "get_driver (write_trip s x) j = get_driver s j"
  "get_driver (update_trip_completed_date k day s) j = get_driver s j"
  by (simp_all add: get_driver_def)

lemma get_trip_frame [simp]:
  "get_trip (update_vehicle_status kv sv s) j = get_trip s j"
  "get_trip (update_driver_status k st s) j = get_trip s j"
  by (simp_all add: get_trip_def)

lemma get_trip_frame2 [simp]:
  "get_trip (update_maintenance_completed_date k day s) j = get_trip s j"
  by (simp_all add: get_trip_def update_maintenance_completed_date_def)

lemma get_vehicle_frame_maintenance [simp]:
  "get_vehicle (write_maintenance s x) j = get_vehicle s j"
  "get_vehicle (update_maintenance_completed_date k day s) j = get_vehicle s j"
  by (simp_all add: get_vehicle_def write_maintenance_def update_maintenance_completed_date_def
      split: option.splits)

lemma get_vehicle_write_driver [simp]:
  "get_vehicle (write_driver s x) j = get_vehicle s j"
  by (simp add: get_vehicle_def write_driver_def)

lemma get_maintenance_frame [simp]:
  "get_maintenance (update_vehicle_status kv sv s) j = get_maintenance s j"
  by (simp add: get_maintenance_def update_vehicle_status_def)

lemma get_maintenance_update_completed_date:
  "get_maintenance (update_maintenance_completed_date (Some j) day s) k =
     map_option (\<lambda>m. if m_pk m = Some j then m\<lparr>m_completed_date := Some day\<rparr> else m)
       (get_maintenance s k)"
  unfolding get_maintenance_def update_maintenance_completed_date_def
  by (simp add: find_map_key)

lemma get_maintenance_insert:
  "m_pk x = None \<Longrightarrow> get_maintenance s (next_maintenance_pk s) = None \<Longrightarrow>
   get_maintenance (write_maintenance s x) (next_maintenance_pk s) =
     Some (x\<lparr>m_pk := Some (next_maintenance_pk s)\<rparr>)"
  by (simp add: get_maintenance_def write_maintenance_def find_snoc)


section \<open>Dispatching a trip\<close>










section \<open>One dispatched trip per vehicle\<close>

text \<open>
  Claim C2 fails on the code.  \<^verbatim>\<open>Trip.clean\<close> looks for another dispatched trip only
  when the instance already has a key, so a trip that is created with status dispatched
  is never compared with the trips of its vehicle.  While trip 1 is dispatched on the
  vehicle, creating a second trip of the same vehicle with status dispatched succeeds
  (it is not refused with \<open>VehicleBusy\<close>), and the store then holds two dispatched
  trips of that vehicle.
\<close>

theorem second_dispatched_trip_created:
  "get_trip one_dispatched 1 = Some \<lparr>t_pk = Some 1, vehicle_id = Some 1, driver_id = Some 1, cargo_weight_kg = 50000,
            revenue = 0, distance_km = 0, t_status = dispatched, completed_date = None\<rparr>
   \<and> get_vehicle one_dispatched 1 = Some \<lparr>v_pk = Some 1, capacity_kg = 100000, odometer_km = 500000, v_status = on_trip,
            acquisition_cost = 1000000\<rparr>
   \<and> create_trip 100 one_dispatched dispatched_load = Inr two_dispatched
   \<and> get_trip two_dispatched 1 = Some \<lparr>t_pk = Some 1, vehicle_id = Some 1, driver_id = Some 1, cargo_weight_kg = 50000,
            revenue = 0, distance_km = 0, t_status = dispatched, completed_date = None\<rparr>
   \<and> get_trip two_dispatched 2 = Some \<lparr>t_pk = Some 2, vehicle_id = Some 1, driver_id = Some 1, cargo_weight_kg = 50000,
            revenue = 0, distance_km = 0, t_status = dispatched, completed_date = None\<rparr>"
  by (simp add: depot_def half_load_def dispatched_load_def one_dispatched_def two_dispatched_def model_defs)

section \<open>Illegal transitions\<close>

text \<open>
  The three trip actions of the view set refuse the transitions out of the final states
  and the direct step from draft to completed.
\<close>

lemma trip_actions_refuse_illegal_transitions:
  assumes "get_trip s pk = Some t"
  shows "(t_status t = completed \<or> t_status t = cancelled \<longrightarrow>
            dispatch_trip today s pk = Inl InvalidTransition
          \<and> complete_trip today s pk rq = Inl InvalidTransition)
       \<and> (t_status t = completed \<longrightarrow> cancel_trip today s pk = Inl InvalidTransition)
       \<and> (t_status t = draft \<longrightarrow> complete_trip today s pk rq = Inl InvalidTransition)"
  using assms by (auto simp: dispatch_trip_def complete_trip_def cancel_trip_def)

text \<open>
  Claim C3 fails on the code for ordinary field updates.  Neither
  \<^verbatim>\<open>TripDetailSerializer.validate\<close> nor \<^verbatim>\<open>Trip.save\<close> compares the new status with the
  stored one: an update request that carries only \<^verbatim>\<open>status\<close> takes a completed trip back
  to draft, and takes a draft trip straight to completed.
\<close>

theorem update_trip_performs_illegal_transitions:
  "get_trip one_completed 1 = Some \<lparr>t_pk = Some 1, vehicle_id = Some 1, driver_id = Some 1, cargo_weight_kg = 50000,
            revenue = 0, distance_km = 0, t_status = completed, completed_date = Some 101\<rparr>
   \<and> update_trip 102 one_completed 1 (status_only draft) = Inr reopened
   \<and> get_trip reopened 1 = Some \<lparr>t_pk = Some 1, vehicle_id = Some 1, driver_id = Some 1, cargo_weight_kg = 50000,
            revenue = 0, distance_km = 0, t_status = draft, completed_date = Some 101\<rparr>
   \<and> get_trip one_draft 1 = Some \<lparr>t_pk = Some 1, vehicle_id = Some 1, driver_id = Some 1, cargo_weight_kg = 50000,
            revenue = 0, distance_km = 0, t_status = draft, completed_date = None\<rparr>
   \<and> update_trip 100 one_draft 1 (status_only completed) = Inr completed_directly
   \<and> get_trip completed_directly 1 = Some \<lparr>t_pk = Some 1, vehicle_id = Some 1, driver_id = Some 1, cargo_weight_kg = 50000,
            revenue = 0, distance_km = 0, t_status = completed, completed_date = None\<rparr>"
  by (simp add: depot_def half_load_def status_only_def no_fields_def one_draft_def one_completed_def reopened_def completed_directly_def model_defs)

section \<open>Completing a trip\<close>





section \<open>Cargo over capacity\<close>





section \<open>Retiring a vehicle\<close>

text \<open>\<^verbatim>\<open>retire\<close> refuses a vehicle that is on a trip and retires any other.\<close>

lemma retire_rule:
  assumes "get_vehicle s k = Some v"
  shows "(v_status v = on_trip \<longrightarrow> retire s k = Inl VehicleBusy)
       \<and> (v_status v \<noteq> on_trip \<longrightarrow>
            (\<exists>s'. retire s k = Inr s' \<and> get_vehicle s' k = Some (v\<lparr>v_status := retired\<rparr>)))"
  using assms get_vehicle_pk[OF assms]
  by (simp add: retire_def get_vehicle_write_vehicle)

text \<open>
  Claim C6 fails on the code in its second half.  \<^verbatim>\<open>Maintenance.save\<close> sets the status
  of the vehicle without looking at it: after the vehicle of the depot has been retired,
  a new maintenance record with the default status pending moves it to the shop.
\<close>

theorem retired_vehicle_leaves_retired:
  "retire depot 1 = Inr retired_depot
   \<and> get_vehicle retired_depot 1 = Some \<lparr>v_pk = Some 1, capacity_kg = 100000, odometer_km = 500000, v_status = retired,
            acquisition_cost = 1000000\<rparr>
   \<and> create_maintenance 101 retired_depot pending_service = Inr back_in_shop
   \<and> get_vehicle back_in_shop 1 = Some \<lparr>v_pk = Some 1, capacity_kg = 100000, odometer_km = 500000, v_status = in_shop,
            acquisition_cost = 1000000\<rparr>"
  by (simp add: depot_def pending_service_def retired_depot_def back_in_shop_def model_defs)

section \<open>Odometer\<close>

lemma Trip_save_odometer:
  assumes "Trip_save today s self = Inr s'" and "get_vehicle s k = Some v"
  shows "\<exists>v'. get_vehicle s' k = Some v' \<and> odometer_km v \<le> odometer_km v'"
  using assms
  by (auto simp: Trip_save_def Let_def get_vehicle_update_vehicle_status_any
           split: sum.splits if_splits)

lemma Maintenance_save_odometer:
  assumes "Maintenance_save today s self = Inr s'" and "get_vehicle s k = Some v"
  shows "\<exists>v'. get_vehicle s' k = Some v' \<and> odometer_km v \<le> odometer_km v'"
  using assms
  by (auto simp: Maintenance_save_def Let_def get_vehicle_update_vehicle_status_any
           split: sum.splits if_splits)

lemma update_vehicle_odometer:
  assumes "update_vehicle s pk data = Inr s'" and "get_vehicle s k = Some v"
  shows "\<exists>v'. get_vehicle s' k = Some v' \<and> odometer_km v \<le> odometer_km v'"
  using assms get_vehicle_pk[OF assms(2)]
  by (cases "k = pk")
     (auto simp: update_vehicle_def validate_odometer_km_def get_vehicle_write_vehicle
           assign_vehicle_data_def dest: get_vehicle_pk
           split: option.splits sum.splits if_splits)

lemma admin_change_vehicle_odometer:
  assumes "admin_change_vehicle s pk data = Inr s'" and "get_vehicle s k = Some v"
  shows "\<exists>v'. get_vehicle s' k = Some v' \<and> odometer_km v \<le> odometer_km v'"
  using assms get_vehicle_pk[OF assms(2)]
  by (cases "k = pk")
     (auto simp: admin_change_vehicle_def Vehicle_clean_def get_vehicle_write_vehicle
           assign_vehicle_data_def dest: get_vehicle_pk
           split: option.splits sum.splits if_splits)

lemma retire_odometer:
  assumes "retire s pk = Inr s'" and "get_vehicle s k = Some v"
  shows "\<exists>v'. get_vehicle s' k = Some v' \<and> odometer_km v \<le> odometer_km v'"
  using assms get_vehicle_pk[OF assms(2)]
  by (cases "k = pk")
     (auto simp: retire_def get_vehicle_write_vehicle dest: get_vehicle_pk
           split: option.splits if_splits)

lemma perform_odometer:
  assumes "perform today s x = Inr s'" and "get_vehicle s k = Some v"
  shows "\<exists>v'. get_vehicle s' k = Some v' \<and> odometer_km v \<le> odometer_km v'"
proof (cases x)
  case (CreateTrip data)
  then show ?thesis using assms
    by (auto dest: Trip_save_odometer simp: create_trip_def split: if_splits sum.splits)
next
  case (UpdateTrip pk data)
  then show ?thesis using assms
    by (auto dest: Trip_save_odometer simp: update_trip_def split: option.splits sum.splits)
next
  case (DispatchTrip pk)
  then show ?thesis using assms
    by (auto dest: Trip_save_odometer simp: dispatch_trip_def split: option.splits if_splits)
next
  case (CompleteTrip pk rq)
  then show ?thesis using assms
    by (auto dest: Trip_save_odometer simp: complete_trip_def Let_def split: option.splits if_splits)
next
  case (CancelTrip pk)
  then show ?thesis using assms
    by (auto dest: Trip_save_odometer simp: cancel_trip_def split: option.splits if_splits)
next
  case (UpdateVehicle pk data)
  then show ?thesis using assms by (simp add: update_vehicle_odometer)
next
  case (AdminChangeVehicle pk data)
  then show ?thesis using assms by (simp add: admin_change_vehicle_odometer)
next
  case (RetireVehicle pk)
  then show ?thesis using assms by (simp add: retire_odometer)
next
  case (SuspendDriver pk)
  then show ?thesis using assms
    by (auto simp: suspend_def split: option.splits if_splits)
next
  case (ReinstateDriver pk)
  then show ?thesis using assms
    by (auto simp: reinstate_def split: option.splits)
next
  case (CreateMaintenance data)
  then show ?thesis using assms
    by (auto dest: Maintenance_save_odometer simp: create_maintenance_def split: option.splits)
next
  case (CompleteMaintenance pk)
  then show ?thesis using assms
    by (auto dest: Maintenance_save_odometer simp: complete_maintenance_def split: option.splits)
qed

lemma run_odometer:
  "get_vehicle s k = Some v \<Longrightarrow>
   \<exists>v'. get_vehicle (run s ops) k = Some v' \<and> odometer_km v \<le> odometer_km v'"
proof (induction ops arbitrary: s v)
  case Nil
  then show ?case by simp
next
  case (Cons a ops)
  obtain today x where a: "a = (today, x)" by (cases a)
  show ?case
  proof (cases "perform today s x")
    case (Inl e)
    then show ?thesis using Cons a by (simp add: outcome_def)
  next
    case (Inr s1)
    from perform_odometer[OF Inr Cons.prems] obtain v1
      where v1: "get_vehicle s1 k = Some v1" "odometer_km v \<le> odometer_km v1" by blast
    from Cons.IH[OF v1(1)] obtain v' where
      "get_vehicle (run s1 ops) k = Some v'" "odometer_km v1 \<le> odometer_km v'" by blast
    then show ?thesis using a Inr v1(2) by (auto simp: outcome_def)
  qed
qed


text \<open>
  Claim C7.  After any sequence of requests a stored vehicle is still stored and its
  odometer reading is not below the earlier one; an update through the serializer or
  through the admin form that carries a reading below the stored one is refused with a
  validation error and leaves the store as it was.
\<close>

theorem odometer_never_decreases:
  assumes "get_vehicle s k = Some v"
  shows "(\<exists>v'. get_vehicle (run s ops) k = Some v' \<and> odometer_km v \<le> odometer_km v')
     \<and> (\<forall>data x. vd_odometer_km data = Some x \<and> x < odometer_km v \<longrightarrow>
            update_vehicle s k data = Inl OutOfRange
          \<and> admin_change_vehicle s k data = Inl OutOfRange
          \<and> outcome s (update_vehicle s k data) = s
          \<and> outcome s (admin_change_vehicle s k data) = s)"
proof -
  have rejected: "\<forall>data x. vd_odometer_km data = Some x \<and> x < odometer_km v \<longrightarrow>
            update_vehicle s k data = Inl OutOfRange
          \<and> admin_change_vehicle s k data = Inl OutOfRange
          \<and> outcome s (update_vehicle s k data) = s
          \<and> outcome s (admin_change_vehicle s k data) = s"
    using assms get_vehicle_pk[OF assms]
    by (auto simp: update_vehicle_def admin_change_vehicle_def validate_odometer_km_def
        Vehicle_clean_def assign_vehicle_data_def outcome_def)
  from run_odometer[OF assms] rejected show ?thesis by blast
qed


text \<open>
  Witness for C7: on the depot (odometer 5000 km) a reading of 4000 km is refused, and
  after that request and one with 6000 km the odometer stands at 6000 km.
\<close>

theorem odometer_never_decreases_witness:
  "get_vehicle depot 1 = Some \<lparr>v_pk = Some 1, capacity_kg = 100000, odometer_km = 500000, v_status = available,
            acquisition_cost = 1000000\<rparr>
   \<and> (\<exists>v'. get_vehicle (run depot [(100, UpdateVehicle 1 (odometer_reading 400000)),
                                     (101, UpdateVehicle 1 (odometer_reading 600000))]) 1 = Some v'
           \<and> 500000 \<le> odometer_km v')
   \<and> get_vehicle (run depot [(100, UpdateVehicle 1 (odometer_reading 400000)),
                              (101, UpdateVehicle 1 (odometer_reading 600000))]) 1
       = Some \<lparr>v_pk = Some 1, capacity_kg = 100000, odometer_km = 600000, v_status = available,
            acquisition_cost = 1000000\<rparr>
   \<and> update_vehicle depot 1 (odometer_reading 400000) = Inl OutOfRange
   \<and> admin_change_vehicle depot 1 (odometer_reading 400000) = Inl OutOfRange
   \<and> outcome depot (update_vehicle depot 1 (odometer_reading 400000)) = depot"
proof -
  let ?v = "\<lparr>v_pk = Some 1, capacity_kg = 100000, odometer_km = 500000, v_status = available,
            acquisition_cost = 1000000\<rparr>"
  let ?ops = "[(100, UpdateVehicle 1 (odometer_reading 400000)),
               (101, UpdateVehicle 1 (odometer_reading 600000))]"
  have v: "get_vehicle depot 1 = Some ?v" by (simp add: depot_def odometer_reading_def model_defs)
  note inst = odometer_never_decreases[OF v, of ?ops]
  have kept: "\<exists>v'. get_vehicle (run depot ?ops) 1 = Some v' \<and> 500000 \<le> odometer_km v'"
    using inst by simp
  have reading: "vd_odometer_km (odometer_reading 400000) = Some 400000"
    by (simp add: odometer_reading_def)
  have refused: "update_vehicle depot 1 (odometer_reading 400000) = Inl OutOfRange
      \<and> admin_change_vehicle depot 1 (odometer_reading 400000) = Inl OutOfRange
      \<and> outcome depot (update_vehicle depot 1 (odometer_reading 400000)) = depot"
    using inst reading by (simp add: outcome_def)
  have final: "get_vehicle (run depot ?ops) 1 = Some \<lparr>v_pk = Some 1, capacity_kg = 100000, odometer_km = 600000, v_status = available,
            acquisition_cost = 1000000\<rparr>"
    by (simp add: depot_def odometer_reading_def model_defs)
  from v kept final refused show ?thesis by blast
qed

section \<open>Suspending and reinstating a driver\<close>

text \<open>
  Claim C8.  For a stored driver: \<^verbatim>\<open>suspend\<close> is refused with \<open>DriverBusy\<close> when the
  driver is on duty and otherwise stores the status suspended; \<^verbatim>\<open>reinstate\<close> always
  succeeds and stores the status off duty, also for a driver who is on duty.
\<close>

theorem suspend_and_reinstate:
  assumes "get_driver s k = Some d"
  shows "(d_status d = on_duty \<longrightarrow> suspend s k = Inl DriverBusy)
       \<and> (d_status d \<noteq> on_duty \<longrightarrow>
            (\<exists>s'. suspend s k = Inr s' \<and> get_driver s' k = Some (d\<lparr>d_status := suspended\<rparr>)))
       \<and> (\<exists>s'. reinstate s k = Inr s' \<and> get_driver s' k = Some (d\<lparr>d_status := off_duty\<rparr>))"
proof -
  have pk: "d_pk d = Some k" using assms by (rule get_driver_pk)
  have busy: "d_status d = on_duty \<longrightarrow> suspend s k = Inl DriverBusy"
    using assms by (simp add: suspend_def)
  have susp: "d_status d \<noteq> on_duty \<longrightarrow>
      (\<exists>s'. suspend s k = Inr s' \<and> get_driver s' k = Some (d\<lparr>d_status := suspended\<rparr>))"
    using assms pk by (simp add: suspend_def get_driver_write_driver)
  have rein: "\<exists>s'. reinstate s k = Inr s' \<and> get_driver s' k = Some (d\<lparr>d_status := off_duty\<rparr>)"
    using assms pk by (simp add: reinstate_def get_driver_write_driver)
  from busy susp rein show ?thesis by blast
qed

text \<open>
  Witness for C8: the driver of the depot is off duty and can be suspended; while the trip
  is dispatched the same driver is on duty, cannot be suspended, and can be reinstated.
\<close>

theorem suspend_and_reinstate_witness:
  "get_driver depot 1 = Some \<lparr>d_pk = Some 1, license_expiry = 400, d_status = off_duty\<rparr>
   \<and> (\<exists>s'. suspend depot 1 = Inr s' \<and> get_driver s' 1 = Some \<lparr>d_pk = Some 1, license_expiry = 400, d_status = suspended\<rparr>)
   \<and> get_driver one_dispatched 1 = Some \<lparr>d_pk = Some 1, license_expiry = 400, d_status = on_duty\<rparr>
   \<and> suspend one_dispatched 1 = Inl DriverBusy
   \<and> (\<exists>s'. reinstate one_dispatched 1 = Inr s' \<and> get_driver s' 1 = Some \<lparr>d_pk = Some 1, license_expiry = 400, d_status = off_duty\<rparr>)"
proof -
  let ?d = "\<lparr>d_pk = Some 1, license_expiry = 400, d_status = off_duty\<rparr>"
  let ?d' = "\<lparr>d_pk = Some 1, license_expiry = 400, d_status = on_duty\<rparr>"
  have d: "get_driver depot 1 = Some ?d" by (simp add: depot_def half_load_def one_dispatched_def model_defs)
  have d': "get_driver one_dispatched 1 = Some ?d'" by (simp add: depot_def half_load_def one_dispatched_def model_defs)
  have a: "\<exists>s'. suspend depot 1 = Inr s' \<and> get_driver s' 1 = Some \<lparr>d_pk = Some 1, license_expiry = 400, d_status = suspended\<rparr>"
    using suspend_and_reinstate[OF d] by simp
  have b: "suspend one_dispatched 1 = Inl DriverBusy"
    using suspend_and_reinstate[OF d'] by simp
  have c: "\<exists>s'. reinstate one_dispatched 1 = Inr s' \<and> get_driver s' 1 = Some \<lparr>d_pk = Some 1, license_expiry = 400, d_status = off_duty\<rparr>"
    using suspend_and_reinstate[OF d'] by simp
  from d a d' b c show ?thesis by blast
qed

section \<open>A maintenance record created as completed\<close>

text \<open>
  Claim C10.  Creating a maintenance record with status completed for a stored vehicle
  succeeds; the vehicle is then available (not in the shop), whatever its status was,
  and the new record carries the supplied \<^verbatim>\<open>completed_date\<close>, or the current date when
  none was supplied.  The new record is read back under the table's next key, which is
  taken to be unused.
\<close>

theorem create_completed_maintenance:
  assumes "md_vehicle data = Some vid" and "get_vehicle s vid = Some v"
    and "md_status data = Some maintenance_completed"
    and "get_maintenance s (next_maintenance_pk s) = None"
  shows "\<exists>s'. create_maintenance today s data = Inr s'
     \<and> get_vehicle s' vid = Some (v\<lparr>v_status := available\<rparr>)
     \<and> get_maintenance s' (next_maintenance_pk s) =
         Some \<lparr>m_pk = Some (next_maintenance_pk s), m_vehicle_id = Some vid,
               m_status = maintenance_completed,
               m_completed_date = Some (case md_completed_date data of None \<Rightarrow> today | Some day \<Rightarrow> day),
               cost = (case md_cost data of None \<Rightarrow> 0 | Some c \<Rightarrow> c)\<rparr>"
proof -
  let ?self = "\<lparr>m_pk = None, m_vehicle_id = Some vid, m_status = maintenance_completed,
                m_completed_date = md_completed_date data,
                cost = (case md_cost data of None \<Rightarrow> 0 | Some c \<Rightarrow> c)\<rparr>"
  let ?s1 = "update_vehicle_status (Some vid) available (write_maintenance s ?self)"
  let ?s' = "if md_completed_date data = None
             then update_maintenance_completed_date (Some (next_maintenance_pk s)) today ?s1
             else ?s1"
  have vpk: "v_pk v = Some vid" using assms(2) by (rule get_vehicle_pk)
  have run: "create_maintenance today s data = Inr ?s'"
    using assms(1,2,3)
    by (auto simp: create_maintenance_def Maintenance_save_def old_maintenance_status_def
        saved_maintenance_pk_def Let_def)
  have veh: "get_vehicle ?s' vid = Some (v\<lparr>v_status := available\<rparr>)"
    using assms(2) vpk by (simp add: get_vehicle_update_vehicle_status_any)
  have rec: "get_maintenance ?s' (next_maintenance_pk s) =
         Some \<lparr>m_pk = Some (next_maintenance_pk s), m_vehicle_id = Some vid,
               m_status = maintenance_completed,
               m_completed_date = Some (case md_completed_date data of None \<Rightarrow> today | Some day \<Rightarrow> day),
               cost = (case md_cost data of None \<Rightarrow> 0 | Some c \<Rightarrow> c)\<rparr>"
    using assms(4)
    by (auto simp: get_maintenance_update_completed_date get_maintenance_insert)
  from run veh rec show ?thesis by blast
qed


text \<open>
  Witness for C10: a completed record without a date, created on day 101 for the vehicle
  of the depot, once while the vehicle is on a trip and once after it was retired.
\<close>

theorem create_completed_maintenance_witness:
  "get_vehicle one_dispatched 1 = Some \<lparr>v_pk = Some 1, capacity_kg = 100000, odometer_km = 500000, v_status = on_trip,
            acquisition_cost = 1000000\<rparr>
   \<and> get_maintenance one_dispatched (next_maintenance_pk one_dispatched) = None
   \<and> (\<exists>s'. create_maintenance 101 one_dispatched finished_service = Inr s'
         \<and> get_vehicle s' 1 = Some \<lparr>v_pk = Some 1, capacity_kg = 100000, odometer_km = 500000, v_status = available,
            acquisition_cost = 1000000\<rparr>
         \<and> get_maintenance s' 1 =
             Some \<lparr>m_pk = Some 1, m_vehicle_id = Some 1, m_status = maintenance_completed,
                   m_completed_date = Some 101, cost = 2500\<rparr>)
   \<and> get_vehicle retired_depot 1 = Some \<lparr>v_pk = Some 1, capacity_kg = 100000, odometer_km = 500000, v_status = retired,
            acquisition_cost = 1000000\<rparr>
   \<and> get_maintenance retired_depot (next_maintenance_pk retired_depot) = None
   \<and> (\<exists>s'. create_maintenance 101 retired_depot finished_service = Inr s'
         \<and> get_vehicle s' 1 = Some \<lparr>v_pk = Some 1, capacity_kg = 100000, odometer_km = 500000, v_status = available,
            acquisition_cost = 1000000\<rparr>)"
proof -
  let ?v = "\<lparr>v_pk = Some 1, capacity_kg = 100000, odometer_km = 500000, v_status = on_trip,
            acquisition_cost = 1000000\<rparr>"
  let ?v' = "\<lparr>v_pk = Some 1, capacity_kg = 100000, odometer_km = 500000, v_status = retired,
            acquisition_cost = 1000000\<rparr>"
  have data: "md_vehicle finished_service = Some 1"
    "md_status finished_service = Some maintenance_completed"
    by (simp_all add: finished_service_def)
  have v: "get_vehicle one_dispatched 1 = Some ?v" by (simp add: depot_def half_load_def finished_service_def one_dispatched_def retired_depot_def model_defs)
  have fresh: "get_maintenance one_dispatched (next_maintenance_pk one_dispatched) = None"
    by (simp add: depot_def half_load_def finished_service_def one_dispatched_def retired_depot_def model_defs)
  have pk: "next_maintenance_pk one_dispatched = 1" by (simp add: depot_def half_load_def finished_service_def one_dispatched_def retired_depot_def model_defs)
  have v': "get_vehicle retired_depot 1 = Some ?v'" by (simp add: depot_def half_load_def finished_service_def one_dispatched_def retired_depot_def model_defs)
  have fresh': "get_maintenance retired_depot (next_maintenance_pk retired_depot) = None"
    by (simp add: depot_def half_load_def finished_service_def one_dispatched_def retired_depot_def model_defs)
  have a: "\<exists>s'. create_maintenance 101 one_dispatched finished_service = Inr s'
         \<and> get_vehicle s' 1 = Some \<lparr>v_pk = Some 1, capacity_kg = 100000, odometer_km = 500000, v_status = available,
            acquisition_cost = 1000000\<rparr>
         \<and> get_maintenance s' 1 =
             Some \<lparr>m_pk = Some 1, m_vehicle_id = Some 1, m_status = maintenance_completed,
                   m_completed_date = Some 101, cost = 2500\<rparr>"
    using create_completed_maintenance[OF data(1) v data(2) fresh, of 101] pk
    by (simp add: finished_service_def)
  have b: "\<exists>s'. create_maintenance 101 retired_depot finished_service = Inr s'
         \<and> get_vehicle s' 1 = Some \<lparr>v_pk = Some 1, capacity_kg = 100000, odometer_km = 500000, v_status = available,
            acquisition_cost = 1000000\<rparr>"
    using create_completed_maintenance[OF data(1) v' data(2) fresh', of 101]
    by auto
  from v fresh a v' fresh' b show ?thesis by blast
qed

end
